theory Spec2Isabelle
  imports Main
begin

section \<open>The consultation panel (VoiceConsultation component)\<close>

text \<open>
  The component keeps one state record (\<open>useState\<close>), one mutable reference to the
  live recording (\<open>useRef\<close>), and talks to three platform providers: audio capture,
  image picker and speech synthesis. The handlers are embedded as functions on a
  record that holds the component's state together with what the handlers leave
  behind in the environment: console output, errors that leave a handler uncaught,
  pending timers and utterances handed to the speech provider. The answers of the
  platform are parameters of the handlers.
\<close>

subsection \<open>Data\<close>

record ConsultationState =
  isRecording :: bool
  audioUri :: "string option"
  imageUri :: "string option"
  diagnosis :: string
  isProcessing :: bool
  isSpeaking :: bool

text \<open>A recording object of the audio provider; \<open>getURI\<close> is \<open>string | null\<close>.\<close>

datatype Recording = Recording (getURI: "string option")

text \<open>The status carried by the answer of \<open>requestPermissionsAsync\<close>.\<close>

datatype PermissionStatus = GRANTED | DENIED | UNDETERMINED

text \<open>
  The answer of \<open>launchImageLibraryAsync\<close>: the \<open>canceled\<close> flag and the locations
  of the chosen assets (\<open>result.assets[i].uri\<close>).
\<close>

datatype ImagePickerResult = ImagePickerResult (canceled: bool) (assets: "string list")

text \<open>
  How a platform call ends: it yields a value, or it throws (a rejected promise for
  an awaited call) with an error.
\<close>

datatype 'a outcome = Success 'a | Failure string

record Panel =
  state :: ConsultationState
  recording :: "Recording option"
  console :: "(string \<times> string) list"
  uncaught :: "string list"
  timeouts :: nat
  utterances :: "string list"
  updates :: "ConsultationState list"
  starting :: nat
  stopping :: nat
  picking :: nat
  unmounted :: bool

text \<open>
  \<open>state\<close> is the value of \<open>useState\<close>, \<open>recording\<close> is \<open>recording.current\<close>,
  \<open>console\<close> collects the (message, error) pairs given to \<open>console.error\<close>,
  \<open>uncaught\<close> the errors thrown out of a handler with no \<open>catch\<close> around them,
  \<open>timeouts\<close> counts the \<open>setTimeout\<close> callbacks not yet fired, \<open>utterances\<close> holds
  the texts accepted by \<open>Speech.speak\<close> whose \<open>onDone\<close> has not fired yet, and
  \<open>updates\<close> lists the state record produced by every \<open>setState\<close> call, oldest first.
  \<open>starting\<close>, \<open>stopping\<close> and \<open>picking\<close> count the handler invocations that are
  suspended at an \<open>await\<close>. \<open>unmounted\<close> is set once React has taken the component
  down because a state updater threw while it rendered.
\<close>

definition initialState :: ConsultationState where
  "initialState =
     \<lparr>isRecording = False, audioUri = None, imageUri = None, diagnosis = [],
      isProcessing = False, isSpeaking = False\<rparr>"

definition mounted :: Panel where
  "mounted =
     \<lparr>state = initialState, recording = None, console = [], uncaught = [], timeouts = 0,
      utterances = [], updates = [], starting = 0, stopping = 0, picking = 0,
      unmounted = False\<rparr>"

subsection \<open>Primitive effects\<close>

definition setState :: "(ConsultationState \<Rightarrow> ConsultationState) \<Rightarrow> Panel \<Rightarrow> Panel" where
  "setState f w = w\<lparr>state := f (state w), updates := updates w @ [f (state w)]\<rparr>"

definition console_error :: "string \<Rightarrow> string \<Rightarrow> Panel \<Rightarrow> Panel" where
  "console_error msg err w = w\<lparr>console := console w @ [(msg, err)]\<rparr>"

definition throw :: "string \<Rightarrow> Panel \<Rightarrow> Panel" where
  "throw err w = w\<lparr>uncaught := uncaught w @ [err]\<rparr>"

definition setTimeout :: "Panel \<Rightarrow> Panel" where
  "setTimeout w = w\<lparr>timeouts := Suc (timeouts w)\<rparr>"

text \<open>
  An updater given to \<open>setState\<close> runs inside React, not inside the handler that
  passes it. When it throws, the handler has already gone on; the error comes up
  while React renders; the sources mount no error boundary, so the component is
  unmounted.
\<close>

definition renderError :: "Panel \<Rightarrow> Panel" where
  "renderError w = w\<lparr>unmounted := True\<rparr>"

subsection \<open>Handlers\<close>

text \<open>
  \<open>startRecording\<close>: three awaited calls inside one \<open>try\<close>; the reference and the state
  are written only after the last of them, so the handler is one function of the three
  answers. The answer of the permission request is bound to nothing.
\<close>

definition startRecording ::
  "PermissionStatus outcome \<Rightarrow> unit outcome \<Rightarrow> Recording outcome \<Rightarrow> Panel \<Rightarrow> Panel" where
  "startRecording permission audioMode created w =
     (case permission of
        Failure err \<Rightarrow> console_error ''Failed to start recording'' err w
      | Success _ \<Rightarrow>
         (case audioMode of
            Failure err \<Rightarrow> console_error ''Failed to start recording'' err w
          | Success _ \<Rightarrow>
             (case created of
                Failure err \<Rightarrow> console_error ''Failed to start recording'' err w
              | Success newRecording \<Rightarrow>
                  setState (\<lambda>prev. prev\<lparr>isRecording := True\<rparr>)
                    (w\<lparr>recording := Some newRecording\<rparr>))))"

text \<open>
  \<open>stopRecording\<close> writes the state before its \<open>await\<close> and the reference after it.
  \<open>stopRecording_enter\<close> is the part up to the \<open>await\<close>: \<open>None\<close> when the handler
  returns at once, otherwise the panel at the moment the handler suspends.
  \<open>stopRecording_resume\<close> is the part after the \<open>await\<close>; it reads
  \<open>recording.current\<close> again, as the source does. Neither part is inside a \<open>try\<close>.
\<close>

definition stopRecording_enter :: "Panel \<Rightarrow> Panel option" where
  "stopRecording_enter w =
     (case recording w of
        None \<Rightarrow> None
      | Some _ \<Rightarrow> Some (setState (\<lambda>prev. prev\<lparr>isRecording := False, isProcessing := True\<rparr>) w))"

definition stopRecording_resume :: "unit outcome \<Rightarrow> Panel \<Rightarrow> Panel" where
  "stopRecording_resume stopped w =
     (case stopped of
        Failure err \<Rightarrow> throw err w
      | Success _ \<Rightarrow>
         (case recording w of
            None \<Rightarrow> throw ''TypeError'' w
          | Some current \<Rightarrow>
             (let uri = getURI current
              in setTimeout (w\<lparr>recording := None\<rparr>))))"

definition stopRecording :: "unit outcome \<Rightarrow> Panel \<Rightarrow> Panel" where
  "stopRecording stopped w =
     (case stopRecording_enter w of
        None \<Rightarrow> w
      | Some w1 \<Rightarrow> stopRecording_resume stopped w1)"

text \<open>
  \<open>pickImage\<close>: one awaited call, not inside a \<open>try\<close>. \<open>result.assets[0].uri\<close>
  stands inside the updater: on an empty array the handler still returns, and the
  TypeError is raised when React applies the update.
\<close>

definition pickImage :: "ImagePickerResult outcome \<Rightarrow> Panel \<Rightarrow> Panel" where
  "pickImage launched w =
     (case launched of
        Failure err \<Rightarrow> throw err w
      | Success result \<Rightarrow>
         (if \<not> canceled result
          then (case assets result of
                  [] \<Rightarrow> renderError w
                | uri # _ \<Rightarrow> setState (\<lambda>prev. prev\<lparr>imageUri := Some uri\<rparr>) w)
          else w))"

definition mockDiagnosis :: string where
  "mockDiagnosis =
     ''Based on your symptoms and the provided image, here are my recommendations:\<newline>\<newline>1. Apply over-the-counter hydrocortisone cream twice daily\<newline>2. Avoid scratching the affected area\<newline>3. Keep the area clean and dry\<newline>4. Take an oral antihistamine if experiencing itching\<newline>5. Consider using a gentle, fragrance-free moisturizer\<newline>\<newline>Please note: This is an AI-generated recommendation. For accurate diagnosis and treatment, please consult with a healthcare professional.''"

text \<open>
  \<open>speakDiagnosis\<close>: \<open>Speech.speak\<close> either accepts the text (its \<open>onDone\<close> callback
  is then pending) or throws into the \<open>catch\<close>.
\<close>

definition speakDiagnosis :: "string \<Rightarrow> unit outcome \<Rightarrow> Panel \<Rightarrow> Panel" where
  "speakDiagnosis text spoken w =
     (let w1 = setState (\<lambda>prev. prev\<lparr>isSpeaking := True\<rparr>) w
      in case spoken of
           Success _ \<Rightarrow> w1\<lparr>utterances := utterances w1 @ [text]\<rparr>
         | Failure err \<Rightarrow>
             setState (\<lambda>prev. prev\<lparr>isSpeaking := False\<rparr>)
               (console_error ''Error speaking:'' err w1))"

definition onDone :: "Panel \<Rightarrow> Panel" where
  "onDone w = setState (\<lambda>prev. prev\<lparr>isSpeaking := False\<rparr>) w"

definition processConsultation :: "unit outcome \<Rightarrow> Panel \<Rightarrow> Panel" where
  "processConsultation spoken w =
     (let w1 = setState (\<lambda>prev. prev\<lparr>isProcessing := True\<rparr>) w;
          w2 = setState (\<lambda>prev. prev\<lparr>diagnosis := mockDiagnosis, isProcessing := False\<rparr>) w1
      in speakDiagnosis mockDiagnosis spoken w2)"

subsection \<open>The rendered controls and the event loop\<close>

text \<open>
  What can happen to a mounted panel: a press on one of the four controls, the
  settling of an awaited platform call, the firing of a timer, the \<open>onDone\<close> callback
  of an utterance. The record button calls \<open>stopRecording\<close> when \<open>state.isRecording\<close>
  and \<open>startRecording\<close> otherwise; the diagnosis button is rendered when
  \<open>state.imageUri\<close> is truthy; the speak button is rendered when \<open>state.diagnosis\<close>
  is truthy and is disabled while \<open>state.isSpeaking\<close>. An event that is not possible
  in a panel leaves it as it is. \<open>perform\<close> is what the component does at an event;
  \<open>handle\<close> follows the panel for as long as it is mounted: once unmounted, the
  panel is discarded and stays as it was.
\<close>

datatype event =
    PressRecord
  | StartSettles "PermissionStatus outcome" "unit outcome" "Recording outcome"
  | StopSettles "unit outcome"
  | PressUpload
  | PickerSettles "ImagePickerResult outcome"
  | PressGetDiagnosis "unit outcome"
  | PressSpeak "unit outcome"
  | TimeoutFires "unit outcome"
  | SpeechDone

fun truthy :: "string option \<Rightarrow> bool" where
  "truthy None = False"
| "truthy (Some s) = (s \<noteq> [])"

fun perform :: "event \<Rightarrow> Panel \<Rightarrow> Panel" where
  "perform PressRecord w =
     (if isRecording (state w)
      then (case stopRecording_enter w of
              None \<Rightarrow> w
            | Some w1 \<Rightarrow> w1\<lparr>stopping := Suc (stopping w1)\<rparr>)
      else w\<lparr>starting := Suc (starting w)\<rparr>)"
| "perform (StartSettles permission audioMode created) w =
     (if starting w = 0 then w
      else startRecording permission audioMode created (w\<lparr>starting := starting w - 1\<rparr>))"
| "perform (StopSettles stopped) w =
     (if stopping w = 0 then w
      else stopRecording_resume stopped (w\<lparr>stopping := stopping w - 1\<rparr>))"
| "perform PressUpload w = w\<lparr>picking := Suc (picking w)\<rparr>"
| "perform (PickerSettles launched) w =
     (if picking w = 0 then w
      else pickImage launched (w\<lparr>picking := picking w - 1\<rparr>))"
| "perform (PressGetDiagnosis spoken) w =
     (if truthy (imageUri (state w)) then processConsultation spoken w else w)"
| "perform (PressSpeak spoken) w =
     (if diagnosis (state w) \<noteq> [] \<and> \<not> isSpeaking (state w)
      then speakDiagnosis (diagnosis (state w)) spoken w
      else w)"
| "perform (TimeoutFires spoken) w =
     (if timeouts w = 0 then w
      else processConsultation spoken (w\<lparr>timeouts := timeouts w - 1\<rparr>))"
| "perform SpeechDone w =
     (case utterances w of
        [] \<Rightarrow> w
      | _ # rest \<Rightarrow> onDone (w\<lparr>utterances := rest\<rparr>))"

definition handle :: "event \<Rightarrow> Panel \<Rightarrow> Panel" where
  "handle e w = (if unmounted w then w else perform e w)"

fun run :: "event list \<Rightarrow> Panel \<Rightarrow> Panel" where
  "run [] w = w"
| "run (e # es) w = run es (handle e w)"

subsection \<open>Orderly event sequences\<close>

text \<open>
  Nothing in the component stops a recording from starting while a diagnosis is
  pending. \<open>orderly es w\<close> says that in the sequence \<open>es\<close>, played from \<open>w\<close>, no
  suspended \<open>startRecording\<close> gets three successful answers at a moment when
  \<open>isProcessing\<close> is set.
\<close>

fun start_succeeds :: "event \<Rightarrow> bool" where
  "start_succeeds (StartSettles (Success _) (Success _) (Success _)) = True"
| "start_succeeds _ = False"

fun orderly :: "event list \<Rightarrow> Panel \<Rightarrow> bool" where
  "orderly [] w = True"
| "orderly (e # es) w =
     ((if start_succeeds e \<and> starting w \<noteq> 0 then \<not> isProcessing (state w) else True)
      \<and> orderly es (handle e w))"

definition exclusive :: "Panel \<Rightarrow> bool" where
  "exclusive w = (\<not> (isRecording (state w) \<and> isProcessing (state w)))"

subsection \<open>Calm event sequences\<close>




section \<open>Properties\<close>

lemmas effects = setState_def console_error_def throw_def setTimeout_def renderError_def

lemmas handlers = startRecording_def stopRecording_enter_def stopRecording_resume_def
  stopRecording_def pickImage_def speakDiagnosis_def onDone_def processConsultation_def

subsection \<open>A handler run without interleaving is its two events\<close>

lemma press_then_start:
  "\<not> unmounted w \<Longrightarrow> \<not> isRecording (state w) \<Longrightarrow> starting w = 0 \<Longrightarrow>
   run [PressRecord, StartSettles permission audioMode created] w
     = startRecording permission audioMode created w"
  by (simp add: handle_def startRecording_def effects split: outcome.split)

lemma press_then_stop:
  "\<not> unmounted w \<Longrightarrow> isRecording (state w) \<Longrightarrow> stopping w = 0 \<Longrightarrow>
   run [PressRecord, StopSettles stopped] w = stopRecording stopped w"
  by (simp add: handle_def stopRecording_def stopRecording_enter_def stopRecording_resume_def effects
      split: option.split outcome.split)

lemma press_then_pick:
  "\<not> unmounted w \<Longrightarrow> picking w = 0 \<Longrightarrow>
   run [PressUpload, PickerSettles launched] w = pickImage launched w"
  by (simp add: handle_def pickImage_def effects split: outcome.split list.split)

subsection \<open>No event writes the audio location\<close>

lemma handle_audioUri: "audioUri (state (handle e w)) = audioUri (state w)"
  by (cases e)
     (simp_all add: handle_def handlers effects Let_def
        split: option.split outcome.split list.split)

lemma run_audioUri: "audioUri (state (run es w)) = audioUri (state w)"
  by (induction es arbitrary: w) (simp_all add: handle_audioUri)

subsection \<open>Recording and processing\<close>

lemma handle_exclusive:
  assumes "exclusive w"
    and "if start_succeeds e \<and> starting w \<noteq> 0 then \<not> isProcessing (state w) else True"
  shows "exclusive (handle e w)"
  using assms
  by (cases e)
     (auto simp: exclusive_def handle_def handlers effects Let_def
           split: option.splits outcome.splits list.splits if_splits)

lemma run_exclusive: "exclusive w \<Longrightarrow> orderly es w \<Longrightarrow> exclusive (run es w)"
proof (induction es arbitrary: w)
  case Nil
  then show ?case by simp
next
  case (Cons e es)
  from Cons.prems have "exclusive (handle e w)" and "orderly es (handle e w)"
    by (simp_all add: handle_exclusive)
  then show ?case using Cons.IH by simp
qed

subsection \<open>Utterances under way\<close>









text \<open>
  C1. Whatever audio and image locations the state holds before (absent ones
  included), and whatever the speech provider answers, generating the diagnosis leaves
  the same string in \<open>diagnosis\<close>: the fixed recommendation text. Two runs from any
  two panels therefore agree on it.
\<close>

theorem processConsultation_diagnosis_fixed:
  "diagnosis (state (processConsultation spoken
      (w\<lparr>state := (state w)\<lparr>audioUri := a, imageUri := i\<rparr>\<rparr>))) = mockDiagnosis
   \<and> diagnosis (state (processConsultation spoken1
      (w1\<lparr>state := (state w1)\<lparr>audioUri := a1, imageUri := i1\<rparr>\<rparr>)))
     = diagnosis (state (processConsultation spoken2
      (w2\<lparr>state := (state w2)\<lparr>audioUri := a2, imageUri := i2\<rparr>\<rparr>)))"
  by (simp add: processConsultation_def speakDiagnosis_def effects Let_def
      split: outcome.split)

text \<open>
  C2, as stated, fails: record, stop, and record again before the timer of the
  first stop has fired. The second recording sets \<open>isRecording\<close> while
  \<open>isProcessing\<close> is still set.
\<close>

theorem recording_and_processing_together:
  "isRecording (state (run
      [PressRecord, StartSettles (Success GRANTED) (Success ()) (Success (Recording (Some ''file:///rec1.m4a''))),
       PressRecord, StopSettles (Success ()),
       PressRecord, StartSettles (Success GRANTED) (Success ()) (Success (Recording (Some ''file:///rec2.m4a'')))] mounted))
   \<and> isProcessing (state (run
      [PressRecord, StartSettles (Success GRANTED) (Success ()) (Success (Recording (Some ''file:///rec1.m4a''))),
       PressRecord, StopSettles (Success ()),
       PressRecord, StartSettles (Success GRANTED) (Success ()) (Success (Recording (Some ''file:///rec2.m4a'')))] mounted))"
  by (simp add: mounted_def initialState_def handle_def handlers effects)

text \<open>
  C2, amended. In every panel reached from the mounted one by an orderly sequence
  of events (no recording starts successfully while \<open>isProcessing\<close> is set), at most
  one of \<open>isRecording\<close> and \<open>isProcessing\<close> is true.
\<close>

theorem orderly_exclusive:
  "orderly es mounted \<Longrightarrow>
   \<not> (isRecording (state (run es mounted)) \<and> isProcessing (state (run es mounted)))"
  using run_exclusive [of mounted es]
  by (simp add: exclusive_def mounted_def initialState_def)

theorem orderly_exclusive_witness:
  "orderly
      [PressRecord, StartSettles (Success GRANTED) (Success ()) (Success (Recording (Some ''file:///rec1.m4a''))),
       PressRecord, StopSettles (Success ()), TimeoutFires (Success ()),
       PressRecord, StartSettles (Success GRANTED) (Success ()) (Success (Recording (Some ''file:///rec2.m4a'')))] mounted
   \<and> \<not> (isRecording (state (run
      [PressRecord, StartSettles (Success GRANTED) (Success ()) (Success (Recording (Some ''file:///rec1.m4a''))),
       PressRecord, StopSettles (Success ()), TimeoutFires (Success ()),
       PressRecord, StartSettles (Success GRANTED) (Success ()) (Success (Recording (Some ''file:///rec2.m4a'')))] mounted))
        \<and> isProcessing (state (run
      [PressRecord, StartSettles (Success GRANTED) (Success ()) (Success (Recording (Some ''file:///rec1.m4a''))),
       PressRecord, StopSettles (Success ()), TimeoutFires (Success ()),
       PressRecord, StartSettles (Success GRANTED) (Success ()) (Success (Recording (Some ''file:///rec2.m4a'')))] mounted)))"
proof -
  have h: "orderly
      [PressRecord, StartSettles (Success GRANTED) (Success ()) (Success (Recording (Some ''file:///rec1.m4a''))),
       PressRecord, StopSettles (Success ()), TimeoutFires (Success ()),
       PressRecord, StartSettles (Success GRANTED) (Success ()) (Success (Recording (Some ''file:///rec2.m4a'')))] mounted"
    by (simp add: mounted_def initialState_def handle_def handlers effects Let_def)
  from h orderly_exclusive [OF h] show ?thesis by blast
qed

text \<open>
  C3 on the code: a recording whose location is \<open>file:///rec1.m4a\<close> is active;
  after \<open>stopRecording\<close> has run to its end, \<open>audioUri\<close> is still absent. The
  location is read into a local binding that nothing uses.
\<close>

theorem stopRecording_discards_uri:
  "recording (run [PressRecord, StartSettles (Success GRANTED) (Success ()) (Success (Recording (Some ''file:///rec1.m4a'')))] mounted)
     = Some (Recording (Some ''file:///rec1.m4a''))
   \<and> audioUri (state (stopRecording (Success ())
       (run [PressRecord, StartSettles (Success GRANTED) (Success ()) (Success (Recording (Some ''file:///rec1.m4a'')))] mounted)))
     = None"
  by (simp add: mounted_def initialState_def handle_def handlers effects Let_def)

text \<open>
  C4 on the code: when \<open>stopAndUnloadAsync\<close> rejects, the error leaves
  \<open>stopRecording\<close> uncaught and nothing is written to the console; the state stays
  at what the handler wrote before the call (\<open>isRecording\<close> false, \<open>isProcessing\<close>
  true), not at the state before the press, and no timer is pending that would reset
  it. A rejection of the image picker leaves \<open>pickImage\<close> uncaught and unlogged too.
\<close>

theorem stopRecording_failure_escapes:
  "state (run [PressRecord, StartSettles (Success GRANTED) (Success ()) (Success (Recording (Some ''file:///rec1.m4a'')))] mounted)
     = initialState\<lparr>isRecording := True\<rparr>
   \<and> stopRecording (Failure ''stop failed'')
       (run [PressRecord, StartSettles (Success GRANTED) (Success ()) (Success (Recording (Some ''file:///rec1.m4a'')))] mounted)
     = (run [PressRecord, StartSettles (Success GRANTED) (Success ()) (Success (Recording (Some ''file:///rec1.m4a'')))] mounted)
         \<lparr>state := initialState\<lparr>isProcessing := True\<rparr>,
          uncaught := [''stop failed''],
          updates := [initialState\<lparr>isRecording := True\<rparr>, initialState\<lparr>isProcessing := True\<rparr>]\<rparr>
   \<and> console (stopRecording (Failure ''stop failed'')
       (run [PressRecord, StartSettles (Success GRANTED) (Success ()) (Success (Recording (Some ''file:///rec1.m4a'')))] mounted))
     = []
   \<and> timeouts (stopRecording (Failure ''stop failed'')
       (run [PressRecord, StartSettles (Success GRANTED) (Success ()) (Success (Recording (Some ''file:///rec1.m4a'')))] mounted))
     = 0
   \<and> pickImage (Failure ''picker failed'') mounted = mounted\<lparr>uncaught := [''picker failed'']\<rparr>"
  by (simp add: mounted_def initialState_def handle_def handlers effects Let_def)

text \<open>
  C5. From any panel, generating the diagnosis ends with \<open>diagnosis\<close> equal to the
  fixed text and \<open>isProcessing\<close> false, and it calls \<open>speakDiagnosis\<close> on that text:
  the third state update of the run sets \<open>isSpeaking\<close>. When the speech provider
  accepts the text, the utterance is under way and \<open>isSpeaking\<close> is true at the end;
  when it throws, the error is logged and \<open>isSpeaking\<close> is cleared again.
\<close>

theorem processConsultation_effect:
  "diagnosis (state (processConsultation spoken w)) = mockDiagnosis
   \<and> \<not> isProcessing (state (processConsultation spoken w))
   \<and> isSpeaking (updates (processConsultation spoken w) ! (length (updates w) + 2))
   \<and> diagnosis (updates (processConsultation spoken w) ! (length (updates w) + 2))
       = mockDiagnosis
   \<and> (case spoken of
         Success _ \<Rightarrow>
           isSpeaking (state (processConsultation spoken w))
           \<and> utterances (processConsultation spoken w) = utterances w @ [mockDiagnosis]
           \<and> length (updates (processConsultation spoken w)) = length (updates w) + 3
       | Failure err \<Rightarrow>
           \<not> isSpeaking (state (processConsultation spoken w))
           \<and> utterances (processConsultation spoken w) = utterances w
           \<and> console (processConsultation spoken w) = console w @ [(''Error speaking:'', err)])"
  by (simp add: processConsultation_def speakDiagnosis_def effects Let_def nth_append
      split: outcome.split)




text \<open>
  C7. When the permission request, the configuration of the audio session or the
  creation of the recording fails, \<open>startRecording\<close> logs the error and changes
  nothing else: the state record, the recording reference and everything but the
  console are as before; \<open>isRecording\<close> keeps its value.
\<close>

theorem startRecording_failure:
  "startRecording (Failure err) audioMode created w
     = w\<lparr>console := console w @ [(''Failed to start recording'', err)]\<rparr>
   \<and> startRecording (Success p) (Failure err) created w
     = w\<lparr>console := console w @ [(''Failed to start recording'', err)]\<rparr>
   \<and> startRecording (Success p) (Success u) (Failure err) w
     = w\<lparr>console := console w @ [(''Failed to start recording'', err)]\<rparr>
   \<and> state (w\<lparr>console := console w @ [(''Failed to start recording'', err)]\<rparr>) = state w
   \<and> isRecording (state (w\<lparr>console := console w @ [(''Failed to start recording'', err)]\<rparr>))
     = isRecording (state w)"
  by (simp add: startRecording_def effects)

text \<open>
  C8. With no recording in \<open>recording.current\<close>, \<open>stopRecording\<close> returns the panel
  as it is: no field of the state changes, no \<open>setState\<close> is issued and no timer is
  set.
\<close>

theorem stopRecording_idle:
  "recording w = None \<Longrightarrow> stopRecording stopped w = w"
  by (simp add: stopRecording_def stopRecording_enter_def)

theorem stopRecording_idle_witness:
  "recording mounted = None \<and> stopRecording (Success ()) mounted = mounted"
proof -
  have h: "recording mounted = None" by (simp add: mounted_def)
  from h stopRecording_idle [OF h, of "Success ()"] show ?thesis by blast
qed

text \<open>
  C9. A canceled picker leaves the panel as it is. A picker that returns a chosen
  image sets \<open>imageUri\<close> to the location of the first asset, by one \<open>setState\<close>, and
  changes nothing else.
\<close>

theorem pickImage_effect:
  "pickImage (Success (ImagePickerResult True chosen)) w = w
   \<and> pickImage (Success (ImagePickerResult False (uri # others))) w
     = w\<lparr>state := (state w)\<lparr>imageUri := Some uri\<rparr>,
         updates := updates w @ [(state w)\<lparr>imageUri := Some uri\<rparr>]\<rparr>"
  by (simp add: pickImage_def effects)

text \<open>
  C10. \<open>startRecording\<close> does not look at the answer of the permission request: any
  two answers, \<open>DENIED\<close> among them, give the same run. When the three calls succeed
  the new recording is stored and \<open>isRecording\<close> is set, also after \<open>DENIED\<close>.
\<close>

theorem startRecording_ignores_permission:
  "startRecording (Success p) audioMode created w
     = startRecording (Success p') audioMode created w
   \<and> startRecording (Success DENIED) (Success u) (Success newRecording) w
     = w\<lparr>recording := Some newRecording,
         state := (state w)\<lparr>isRecording := True\<rparr>,
         updates := updates w @ [(state w)\<lparr>isRecording := True\<rparr>]\<rparr>
   \<and> isRecording (state (startRecording (Success DENIED) (Success u) (Success newRecording) w))"
  by (simp add: startRecording_def effects)

end
